theory Spec2Isabelle
  imports Complex_Main "HOL-Library.AList"
begin

section \<open>Metrics collector (metrics.js)\<close>

text \<open>
  Instants are epoch milliseconds (\<open>Date.now()\<close>), as \<open>int\<close>. A request event is the
  object handed to \<open>recordRequest\<close>; \<open>req_model = None\<close> stands for a body without a
  \<open>model\<close> field (\<open>undefined\<close>). Model names are strings, as the data model of the
  proxy has them.
\<close>

record request =
  req_id :: string
  req_model :: "string option"
  req_endpoint :: string
  timestamp :: int

record response =
  res_id :: string
  duration :: int
  status :: string
  error :: "string option"

text \<open>
  \<open>requests\<close> is a JavaScript array; \<open>responses\<close> is a \<open>Map\<close>, kept as the list of its
  entries in insertion order (keys are distinct); \<open>modelCounts\<close> is a plain object, kept
  as the list of its own properties.
\<close>

record metrics =
  requests :: "request list"
  responses :: "(string \<times> response) list"
  modelCounts :: "(string \<times> nat) list"
  errorCount :: nat
  successCount :: nat
  totalDuration :: int
  startTime :: int
  maxStoredRequests :: nat

text \<open>The constructor, run at instant \<open>now\<close>.\<close>

definition init :: "int \<Rightarrow> metrics" where
  "init now =
     \<lparr>requests = [], responses = [], modelCounts = [], errorCount = 0, successCount = 0,
      totalDuration = 0, startTime = now, maxStoredRequests = 100\<rparr>"

text \<open>\<open>xs.slice(-n)\<close>: the last \<open>n\<close> elements; \<open>slice(-0)\<close> is \<open>slice(0)\<close>, the whole array.\<close>

definition slice_last :: "nat \<Rightarrow> 'a list \<Rightarrow> 'a list" where
  "slice_last n xs = (if n = 0 then xs else drop (length xs - n) xs)"

text \<open>\<open>m.set(k, v)\<close> on a \<open>Map\<close> (and \<open>o[k] = v\<close> on an object): an existing key keeps its
  place, a new key goes last.\<close>

definition map_set :: "'k \<Rightarrow> 'v \<Rightarrow> ('k \<times> 'v) list \<Rightarrow> ('k \<times> 'v) list" where
  "map_set k v m = AList.update k v m"

text \<open>\<open>m.delete(m.keys().next().value)\<close>: removes the entry of the first key in insertion
  order; on an empty map the key is \<open>undefined\<close> and nothing is removed.\<close>

definition delete_oldest :: "('k \<times> 'v) list \<Rightarrow> ('k \<times> 'v) list" where
  "delete_oldest m = (case m of [] \<Rightarrow> [] | (oldestKey, _) # _ \<Rightarrow> AList.delete oldestKey m)"

text \<open>\<open>(this.modelCounts[model] || 0) + 1\<close>, for a model name that is not the name of a
  member every object inherits (\<open>constructor\<close>, \<open>toString\<close>, ...).\<close>

definition bump_model :: "string \<Rightarrow> (string \<times> nat) list \<Rightarrow> (string \<times> nat) list" where
  "bump_model m mc = map_set m ((case map_of mc m of Some c \<Rightarrow> c | None \<Rightarrow> 0) + 1) mc"

definition recordRequest :: "int \<Rightarrow> request \<Rightarrow> metrics \<Rightarrow> metrics" where
  "recordRequest now data s =
     (let request = data\<lparr>timestamp := now\<rparr>;
          pushed = requests s @ [request];
          counts = (case req_model data of
                      Some m \<Rightarrow> if m \<noteq> [] then bump_model m (modelCounts s) else modelCounts s
                    | None \<Rightarrow> modelCounts s)
      in s\<lparr>requests := (if length pushed > maxStoredRequests s
                         then slice_last (maxStoredRequests s) pushed else pushed),
            modelCounts := counts\<rparr>)"

definition recordResponse :: "response \<Rightarrow> metrics \<Rightarrow> metrics" where
  "recordResponse data s =
     (let stored = map_set (res_id data) data (responses s);
          s1 = (if status data = ''success''
                then s\<lparr>successCount := successCount s + 1\<rparr>
                else s\<lparr>errorCount := errorCount s + 1\<rparr>);
          s2 = (if duration data \<noteq> 0
                then s1\<lparr>totalDuration := totalDuration s1 + duration data\<rparr> else s1)
      in s2\<lparr>responses := (if length stored > maxStoredRequests s
                           then delete_oldest stored else stored)\<rparr>)"

definition reset :: "metrics \<Rightarrow> metrics" where
  "reset s = s\<lparr>requests := [], responses := [], modelCounts := [], errorCount := 0,
              successCount := 0, totalDuration := 0\<rparr>"

subsection \<open>Snapshots\<close>

text \<open>
  \<open>toISOString().substr(0, 13)\<close> is the text \<open>YYYY-MM-DDTHH\<close> of an instant in UTC. The key
  is kept as the pair of the day number since the epoch (which the date text
  \<open>YYYY-MM-DD\<close> names one to one, for the four-digit years the proxy runs in) and the
  hour of the day; \<open>substr(11, 2) + ':00'\<close> reads the hour back as two digits.
\<close>

type_synonym hour_key = "int \<times> int"

definition hourKey :: "int \<Rightarrow> hour_key" where
  "hourKey ms = (ms div 86400000, (ms div 3600000) mod 24)"

definition two_digits :: "int \<Rightarrow> string" where
  "two_digits n = [''0123456789'' ! nat (n div 10 mod 10), ''0123456789'' ! nat (n mod 10)]"

definition hourLabel :: "hour_key \<Rightarrow> string" where
  "hourLabel k = two_digits (snd k) @ '':00''"

record hour_count =
  hour :: string
  count :: nat

text \<open>The first loop of \<open>getHourlyStats\<close>: \<open>i\<close> runs from 23 down to 0.\<close>

definition init_hours :: "int \<Rightarrow> (hour_key \<times> nat) list" where
  "init_hours now =
     foldl (\<lambda>hourly i. map_set (hourKey (now - int i * 60 * 60 * 1000)) 0 hourly) []
       (rev [0..<24])"

text \<open>The body of the \<open>forEach\<close>: \<open>hasOwnProperty\<close>, then the increment.\<close>

definition count_hour :: "(hour_key \<times> nat) list \<Rightarrow> request \<Rightarrow> (hour_key \<times> nat) list" where
  "count_hour hourly req =
     (let h = hourKey (timestamp req)
      in case map_of hourly h of Some c \<Rightarrow> map_set h (c + 1) hourly | None \<Rightarrow> hourly)"

definition getHourlyStats :: "int \<Rightarrow> metrics \<Rightarrow> hour_count list" where
  "getHourlyStats now s =
     map (\<lambda>(h, c). \<lparr>hour = hourLabel h, count = c\<rparr>)
       (foldl count_hour (init_hours now) (requests s))"

text \<open>
  \<open>getMetrics\<close>, its two readings of the clock taken at the same instant \<open>now\<close>.
  \<open>Math.round(a / b)\<close> rounds half up, \<open>(2a + b) div 2b\<close> on integers.
  \<open>successRate\<close>, a decimal text made by \<open>toFixed(1)\<close> from a floating-point quotient, is
  left out of the record.
\<close>

record snapshot =
  uptime :: int
  totalRequests :: nat
  snap_successCount :: nat
  snap_errorCount :: nat
  avgResponseTime :: int
  modelUsage :: "(string \<times> nat) list"
  recentRequests :: "request list"
  hourlyCounts :: "hour_count list"

definition getMetrics :: "int \<Rightarrow> metrics \<Rightarrow> snapshot" where
  "getMetrics now s =
     (let total = successCount s + errorCount s
      in \<lparr>uptime = (now - startTime s) div 1000,
          totalRequests = total,
          snap_successCount = successCount s,
          snap_errorCount = errorCount s,
          avgResponseTime =
            (if total > 0 then (2 * totalDuration s + int total) div (2 * int total) else 0),
          modelUsage = modelCounts s,
          recentRequests = rev (slice_last 20 (requests s)),
          hourlyCounts = getHourlyStats now s\<rparr>)"

record summary =
  total :: nat
  success :: nat
  errors :: nat
  models :: nat

definition getSummary :: "metrics \<Rightarrow> summary" where
  "getSummary s =
     \<lparr>total = successCount s + errorCount s, success = successCount s,
      errors = errorCount s, models = length (modelCounts s)\<rparr>"

text \<open>A sequence of calls on the collector.\<close>

datatype call = RecordRequest int request | RecordResponse response | Reset

fun step :: "metrics \<Rightarrow> call \<Rightarrow> metrics" where
  "step s (RecordRequest now data) = recordRequest now data s"
| "step s (RecordResponse data) = recordResponse data s"
| "step s Reset = reset s"

definition run :: "call list \<Rightarrow> metrics \<Rightarrow> metrics" where
  "run calls s = foldl step s calls"

section \<open>OAuth manager (oauth-manager.js)\<close>

text \<open>
  \<open>token\<close> and \<open>tokenExpiry\<close> are the fields of the class (\<open>None\<close> is \<open>null\<close>), the expiry an
  epoch-millisecond instant. \<open>upstreamFetches\<close> is not a field of the class: it counts the
  POST requests the manager has sent to the token endpoint, the effect of
  \<open>axiosInstance.post(this.tokenUrl, ...)\<close>.
\<close>

record oauth_manager =
  token :: "string option"
  tokenExpiry :: "int option"
  upstreamFetches :: nat

definition new_manager :: oauth_manager where
  "new_manager = \<lparr>token = None, tokenExpiry = None, upstreamFetches = 0\<rparr>"

text \<open>An error object: its message and, for an HTTP error, the response it carries.\<close>

record error_response =
  err_status :: nat
  err_data :: "string option"
  statusText :: string

record js_error =
  message :: string
  err_response :: "error_response option"

text \<open>
  What the token endpoint answers: the request is rejected (an HTTP error status, no
  connection, a timeout), or a response arrives whose \<open>data\<close> is an object with an
  \<open>access_token\<close> and, when the server reports one, a lifetime \<open>expires_in\<close> in seconds
  (\<open>Responded None\<close>: no \<open>data\<close> object, so reading \<open>data.access_token\<close> raises a TypeError).
\<close>

record token_data =
  access_token :: "string option"
  expires_in :: "int option"

datatype post_outcome = Rejected js_error | Responded "token_data option"

text \<open>\<open>this.token && Date.now() < this.tokenExpiry\<close>: an empty string is falsy, and \<open>null\<close>
  compares as 0.\<close>

definition hasValidToken :: "int \<Rightarrow> oauth_manager \<Rightarrow> bool" where
  "hasValidToken now s =
     (case token s of
        None \<Rightarrow> False
      | Some t \<Rightarrow> t \<noteq> [] \<and> now < (case tokenExpiry s of None \<Rightarrow> 0 | Some e \<Rightarrow> e))"

text \<open>
  \<open>fetchToken\<close> is an async function. It runs up to its \<open>await\<close> when it is called: the POST
  is sent (\<open>fetchToken_send\<close>, which gives the number of that request). The rest runs when
  the answer arrives, at instant \<open>now\<close> (\<open>fetchToken_settle\<close>): it stores the token and the
  expiry and returns the token, or logs and rethrows the error.
\<close>

definition fetchToken_send :: "oauth_manager \<Rightarrow> nat \<times> oauth_manager" where
  "fetchToken_send s = (upstreamFetches s, s\<lparr>upstreamFetches := Suc (upstreamFetches s)\<rparr>)"

definition fetchToken_settle ::
  "int \<Rightarrow> post_outcome \<Rightarrow> oauth_manager \<Rightarrow> (js_error + string option) \<times> oauth_manager" where
  "fetchToken_settle now out s =
     (case out of
        Rejected e \<Rightarrow> (Inl e, s)
      | Responded None \<Rightarrow>
          (Inl \<lparr>message = ''Cannot read properties of undefined'', err_response = None\<rparr>, s)
      | Responded (Some d) \<Rightarrow>
          (let expiresIn = (case expires_in d of
                              Some n \<Rightarrow> if n \<noteq> 0 then n else 3600
                            | None \<Rightarrow> 3600)
           in (Inr (access_token d),
               s\<lparr>token := access_token d, tokenExpiry := Some (now + expiresIn * 1000)\<rparr>)))"

text \<open>A promise is already resolved, or waits for the answer to a request.\<close>

datatype 'a promise = Resolved 'a | Pending nat

definition getToken :: "int \<Rightarrow> oauth_manager \<Rightarrow> string option promise \<times> oauth_manager" where
  "getToken now s =
     (if \<not> hasValidToken now s
      then (let (n, s') = fetchToken_send s in (Pending n, s'))
      else (Resolved (token s), s))"

text \<open>Calls of \<open>getToken\<close> at the given instants, none of the fetches answered in between.\<close>

fun getTokens :: "int list \<Rightarrow> oauth_manager \<Rightarrow> string option promise list \<times> oauth_manager" where
  "getTokens [] s = ([], s)"
| "getTokens (now # ts) s =
     (let (p, s1) = getToken now s; (ps, s2) = getTokens ts s1 in (p # ps, s2))"

text \<open>\<open>await this.oauthManager.getToken()\<close>: the call at \<open>now\<close>, and, when a fetch was
  started, its answer \<open>out\<close> arriving at \<open>later\<close>.\<close>

definition await_getToken ::
  "int \<Rightarrow> post_outcome \<Rightarrow> int \<Rightarrow> oauth_manager \<Rightarrow> (js_error + string option) \<times> oauth_manager" where
  "await_getToken now out later s =
     (case getToken now s of
        (Resolved t, s') \<Rightarrow> (Inr t, s')
      | (Pending n, s') \<Rightarrow> fetchToken_settle later out s')"

text \<open>One run of the timer callback of \<open>startAutoRefresh\<close>: \<open>fetchToken\<close> inside a
  \<open>try\<close> whose \<open>catch\<close> only logs.\<close>

definition autoRefresh :: "int \<Rightarrow> post_outcome \<Rightarrow> oauth_manager \<Rightarrow> oauth_manager" where
  "autoRefresh now out s =
     (case fetchToken_settle now out (snd (fetchToken_send s)) of
        (Inl e, s') \<Rightarrow> s'
      | (Inr t, s') \<Rightarrow> s')"

section \<open>Proxy handler (proxy-handler.js)\<close>

text \<open>
  A JSON value of a request body, as far as the handler looks at it: \<open>JObj\<close> is any
  object or array. \<open>JNaN\<close> is what \<open>parseInt\<close> and \<open>parseFloat\<close> give for a default that is
  not a number.
\<close>

datatype jsval = JNull | JBool bool | JNum rat | JNaN | JStr string | JObj

fun truthy :: "jsval \<Rightarrow> bool" where
  "truthy JNull = False"
| "truthy (JBool b) = b"
| "truthy (JNum n) = (n \<noteq> 0)"
| "truthy JNaN = False"
| "truthy (JStr s) = (s \<noteq> [])"
| "truthy JObj = True"

text \<open>
  The request body: a field is \<open>None\<close> when the body does not have it (\<open>undefined\<close>).
  \<open>others\<close> holds every other field (\<open>messages\<close>, \<open>prompt\<close>, ...), which the spread
  \<open>...req.body\<close> carries over.
\<close>

record body =
  model :: "string option"
  stream :: "jsval option"
  max_tokens :: "jsval option"
  temperature :: "jsval option"
  top_p :: "jsval option"
  frequency_penalty :: "jsval option"
  presence_penalty :: "jsval option"
  others :: "(string \<times> jsval) list"

text \<open>The defaults of the process environment, already parsed:
  \<open>parseInt(process.env.MAX_TOKENS || '4096')\<close>, \<open>parseFloat(process.env.TEMPERATURE || '0.7')\<close>, ...\<close>

record defaults =
  env_max_tokens :: jsval
  env_temperature :: jsval
  env_top_p :: jsval
  env_frequency_penalty :: jsval
  env_presence_penalty :: jsval

text \<open>\<open>a || b\<close> and \<open>a !== undefined ? a : b\<close> on a field that may be missing.\<close>

definition or_default :: "jsval option \<Rightarrow> jsval \<Rightarrow> jsval" where
  "or_default a b = (case a of Some v \<Rightarrow> if truthy v then v else b | None \<Rightarrow> b)"

definition defined_or :: "jsval option \<Rightarrow> jsval \<Rightarrow> jsval" where
  "defined_or a b = (case a of Some v \<Rightarrow> v | None \<Rightarrow> b)"

definition requestBody :: "defaults \<Rightarrow> body \<Rightarrow> body" where
  "requestBody env b =
     b\<lparr>max_tokens := Some (or_default (max_tokens b) (env_max_tokens env)),
       temperature := Some (defined_or (temperature b) (env_temperature env)),
       top_p := Some (defined_or (top_p b) (env_top_p env)),
       frequency_penalty := Some (defined_or (frequency_penalty b) (env_frequency_penalty env)),
       presence_penalty := Some (defined_or (presence_penalty b) (env_presence_penalty env))\<rparr>"

record http_request =
  authorization :: "string option"
  req_body :: body

text \<open>\<open>!authHeader || !authHeader.startsWith('Bearer ')\<close>\<close>

definition rejected_auth :: "string option \<Rightarrow> bool" where
  "rejected_auth authHeader =
     (case authHeader of
        None \<Rightarrow> True
      | Some h \<Rightarrow> h = [] \<or> take (length ''Bearer '') h \<noteq> ''Bearer '')"

text \<open>
  The upstream API. The data of a response is kept as its text and the \<open>_proxy\<close> field
  it may carry; \<open>api_data = None\<close> is a response without data. A streamed response is the
  chunks it emits and whether it ends (\<open>end\<close>) or breaks (\<open>error\<close>).
\<close>

record api_data =
  payload :: string
  proxy :: "(string \<times> string) option"

record api_response =
  api_status :: nat
  api_data :: "api_data option"

record api_stream =
  chunks :: "string list"
  ends :: bool

text \<open>A request the handler sent upstream.\<close>

record upstream_call =
  url :: string
  sent_body :: body
  bearer :: "string option"
  accept_stream :: bool

text \<open>What the handler writes to the caller: \<open>res.status(n).json(body)\<close>, or the event
  stream opened by \<open>writeHead(200, ...)\<close> with its request id, the chunks written and
  whether \<open>res.end()\<close> was called.\<close>

datatype json_body =
    ErrorEnvelope string string "nat option"
  | Relayed string
  | Data "api_data option"

datatype reply = Json nat json_body | EventStream string "string list" bool

text \<open>
  What one run of a handler reads from outside: the clock at each \<open>Date.now()\<close>, the
  request id drawn by \<open>generateRequestId\<close>, the answer of the token endpoint (read only
  when a fetch is made) and the answer of the upstream API.
\<close>

record env =
  t_start :: int
  requestId :: string
  t_auth :: int
  token_reply :: post_outcome
  t_fetched :: int
  env_defaults :: defaults
  baseUrl :: string
  t_request :: int
  api_reply :: "js_error + api_response"
  stream_reply :: "js_error + api_stream"
  t_end :: int

record world =
  oauth :: oauth_manager
  collector :: metrics
  upstreamCalls :: "upstream_call list"

definition formatErrorResponse :: "js_error \<Rightarrow> nat \<times> json_body" where
  "formatErrorResponse e =
     (case err_response e of
        Some r \<Rightarrow>
          (err_status r,
           (case err_data r of
              Some d \<Rightarrow> Relayed d
            | None \<Rightarrow> ErrorEnvelope (''API error: '' @ statusText r) ''api_error'' (Some (err_status r))))
      | None \<Rightarrow>
          (500, ErrorEnvelope (if message e \<noteq> [] then message e else ''Internal proxy error'')
                  ''proxy_error'' None))"

text \<open>The \<open>catch\<close> block of both handlers; nothing has been written to the caller when
  it is reached.\<close>

definition caught :: "env \<Rightarrow> js_error \<Rightarrow> world \<Rightarrow> reply \<times> world" where
  "caught e err w =
     (let w1 = w\<lparr>collector :=
                  recordResponse \<lparr>res_id = requestId e, duration = t_end e - t_start e,
                                  status = ''error'', error = Some (message err)\<rparr> (collector w)\<rparr>;
          (st, b) = formatErrorResponse err
      in (Json st b, w1))"

definition record_success :: "env \<Rightarrow> world \<Rightarrow> world" where
  "record_success e w =
     w\<lparr>collector :=
         recordResponse \<lparr>res_id = requestId e, duration = t_end e - t_start e,
                         status = ''success'', error = None\<rparr> (collector w)\<rparr>"

definition post_upstream :: "string \<Rightarrow> body \<Rightarrow> string option \<Rightarrow> bool \<Rightarrow> world \<Rightarrow> world" where
  "post_upstream u b tok s w =
     w\<lparr>upstreamCalls :=
         upstreamCalls w @ [\<lparr>url = u, sent_body = b, bearer = tok, accept_stream = s\<rparr>]\<rparr>"

definition handleRegularResponse ::
  "env \<Rightarrow> body \<Rightarrow> string \<Rightarrow> string option \<Rightarrow> world \<Rightarrow> (js_error + reply) \<times> world" where
  "handleRegularResponse e b apiUrl tok w =
     (let w1 = post_upstream apiUrl b tok False w
      in case api_reply e of
           Inl err \<Rightarrow> (Inl err, w1)
         | Inr r \<Rightarrow>
             (let responseData =
                    (case api_data r of
                       Some d \<Rightarrow>
                         (if proxy d = None
                          then Some (d\<lparr>proxy := Some (''rbc-codex-proxy'', requestId e)\<rparr>)
                          else Some d)
                     | None \<Rightarrow> None)
              in (Inr (Json (api_status r) (Data responseData)), w1)))"

definition handleStreamingResponse ::
  "env \<Rightarrow> body \<Rightarrow> string \<Rightarrow> string option \<Rightarrow> world \<Rightarrow> (js_error + reply) \<times> world" where
  "handleStreamingResponse e b apiUrl tok w =
     (let w1 = post_upstream apiUrl b tok True w
      in case stream_reply e of
           Inl err \<Rightarrow> (Inl err, w1)
         | Inr s \<Rightarrow> (Inr (EventStream (requestId e) (chunks s) (ends s)), w1))"

definition handleChatCompletion :: "env \<Rightarrow> http_request \<Rightarrow> world \<Rightarrow> reply \<times> world" where
  "handleChatCompletion e req w =
     (if rejected_auth (authorization req)
      then (Json 401
              (ErrorEnvelope ''Missing or invalid authorization header. Use any non-empty API key.''
                 ''invalid_request_error'' None), w)
      else
        (case await_getToken (t_auth e) (token_reply e) (t_fetched e) (oauth w) of
           (Inl err, m) \<Rightarrow> caught e err (w\<lparr>oauth := m\<rparr>)
         | (Inr tok, m) \<Rightarrow>
             (let b = requestBody (env_defaults e) (req_body req);
                  w1 = w\<lparr>oauth := m,
                         collector :=
                           recordRequest (t_request e)
                             \<lparr>req_id = requestId e, req_model = model b,
                              req_endpoint = ''/v1/chat/completions'', timestamp = t_request e\<rparr>
                             (collector w)\<rparr>;
                  apiUrl = baseUrl e @ ''/chat/completions'';
                  (r, w2) = (if (case stream b of Some v \<Rightarrow> truthy v | None \<Rightarrow> False)
                             then handleStreamingResponse e b apiUrl tok w1
                             else handleRegularResponse e b apiUrl tok w1)
              in case r of
                   Inl err \<Rightarrow> caught e err w2
                 | Inr rep \<Rightarrow> (rep, record_success e w2))))"

definition handleCompletion :: "env \<Rightarrow> http_request \<Rightarrow> world \<Rightarrow> reply \<times> world" where
  "handleCompletion e req w =
     (case await_getToken (t_auth e) (token_reply e) (t_fetched e) (oauth w) of
        (Inl err, m) \<Rightarrow> caught e err (w\<lparr>oauth := m\<rparr>)
      | (Inr tok, m) \<Rightarrow>
          (let b = requestBody (env_defaults e) (req_body req);
               w1 = w\<lparr>oauth := m,
                      collector :=
                        recordRequest (t_request e)
                          \<lparr>req_id = requestId e, req_model = model b,
                           req_endpoint = ''/v1/completions'', timestamp = t_request e\<rparr>
                          (collector w)\<rparr>;
               w2 = post_upstream (baseUrl e @ ''/completions'') b tok False w1
           in case api_reply e of
                Inl err \<Rightarrow> caught e err w2
              | Inr r \<Rightarrow> (Json (api_status r) (Data (api_data r)), record_success e w2)))"

section \<open>Notions used in the statements\<close>

text \<open>The bounds the collector keeps: the capacity set by the constructor, both stores
  within it, and the keys of the response map distinct.\<close>

definition wf :: "metrics \<Rightarrow> bool" where
  "wf s \<longleftrightarrow> maxStoredRequests s = 100 \<and> length (requests s) \<le> 100
     \<and> length (responses s) \<le> 100 \<and> distinct (map fst (responses s))"







text \<open>A manager whose cached credential ran out at instant 1000, one whose credential
  lasts until 5000, and a token endpoint that cannot be reached.\<close>

definition expired :: oauth_manager where
  "expired = \<lparr>token = Some ''old'', tokenExpiry = Some 1000, upstreamFetches = 0\<rparr>"

definition cached :: oauth_manager where
  "cached = \<lparr>token = Some ''old'', tokenExpiry = Some 5000, upstreamFetches = 1\<rparr>"

definition token_down :: post_outcome where
  "token_down = Rejected \<lparr>message = ''connect ECONNREFUSED'', err_response = None\<rparr>"

text \<open>One request at instant 2000 against a proxy whose credential has run out: the
  body asks for \<open>max_tokens: 0\<close> and \<open>temperature: 0\<close>; the token endpoint and the upstream
  API both answer.\<close>

definition ex_defaults :: defaults where
  "ex_defaults = \<lparr>env_max_tokens = JNum 4096, env_temperature = JNum 0.7, env_top_p = JNum 1,
                   env_frequency_penalty = JNum 0, env_presence_penalty = JNum 0\<rparr>"

definition ex_body :: body where
  "ex_body = \<lparr>model = Some ''gpt-4'', stream = None, max_tokens = Some (JNum 0),
               temperature = Some (JNum 0), top_p = None, frequency_penalty = None,
               presence_penalty = None, others = [(''prompt'', JStr ''hi'')]\<rparr>"

definition ex_env :: env where
  "ex_env = \<lparr>t_start = 2000, requestId = ''req_2000_abc'', t_auth = 2000,
              token_reply = Responded (Some \<lparr>access_token = Some ''fresh'', expires_in = Some 3600\<rparr>),
              t_fetched = 2100, env_defaults = ex_defaults, baseUrl = ''https://api'',
              t_request = 2100,
              api_reply = Inr \<lparr>api_status = 200, api_data = Some \<lparr>payload = ''{}'', proxy = None\<rparr>\<rparr>,
              stream_reply = Inr \<lparr>chunks = [], ends = True\<rparr>, t_end = 2300\<rparr>"

definition ex_world :: world where
  "ex_world = \<lparr>oauth = expired, collector = init 0, upstreamCalls = []\<rparr>"

section \<open>Properties of the metrics collector\<close>

subsection \<open>The bounded stores\<close>

lemma map_set_new: "k \<notin> fst ` set m \<Longrightarrow> map_set k v m = m @ [(k, v)]"
  by (induction m) (auto simp: map_set_def)

lemma map_set_old:
  "k \<in> fst ` set m \<Longrightarrow> distinct (map fst m) \<Longrightarrow>
   map_set k v m = map (\<lambda>(k', v'). if k' = k then (k', v) else (k', v')) m"
proof (induction m)
  case Nil
  then show ?case by simp
next
  case (Cons a m)
  obtain k' v' where a: "a = (k', v')" by (cases a)
  show ?case
  proof (cases "k' = k")
    case True
    with Cons.prems a have "k \<notin> fst ` set m" by auto
    then have "map (\<lambda>(k', v'). if k' = k then (k', v) else (k', v')) m = m"
      by (induction m) auto
    with True a show ?thesis by (simp add: map_set_def)
  next
    case False
    with Cons a show ?thesis by (auto simp: map_set_def)
  qed
qed

lemma map_set_keys_old: "k \<in> fst ` set m \<Longrightarrow> map fst (map_set k v m) = map fst m"
  by (simp add: map_set_def update_keys)

lemma length_map_set:
  "length (map_set k v m) = (if k \<in> fst ` set m then length m else Suc (length m))"
  by (induction m) (auto simp: map_set_def)

lemma distinct_map_set: "distinct (map fst m) \<Longrightarrow> distinct (map fst (map_set k v m))"
  by (simp add: map_set_def distinct_update)

lemma delete_oldest_tl: "distinct (map fst m) \<Longrightarrow> delete_oldest m = tl m"
  by (cases m) (auto simp: delete_oldest_def)

lemma slice_last_full: "length xs = n \<Longrightarrow> n > 0 \<Longrightarrow> slice_last n (xs @ [x]) = tl xs @ [x]"
  by (cases xs) (auto simp: slice_last_def)

lemma requests_recordRequest:
  assumes "wf s"
  shows "requests (recordRequest now d s) =
     (if length (requests s) < 100 then requests s else tl (requests s)) @ [d\<lparr>timestamp := now\<rparr>]"
  using assms by (auto simp: wf_def recordRequest_def Let_def slice_last_full)

lemma responses_recordResponse:
  assumes "wf s"
  shows "responses (recordResponse r s) =
     (if res_id r \<in> fst ` set (responses s)
      then map (\<lambda>(k, v). if k = res_id r then (k, r) else (k, v)) (responses s)
      else (if length (responses s) < 100 then responses s else tl (responses s)) @ [(res_id r, r)])"
proof (cases "res_id r \<in> fst ` set (responses s)")
  case True
  with assms show ?thesis
    by (simp add: wf_def recordResponse_def Let_def length_map_set map_set_old)
next
  case False
  with assms have d: "distinct (map fst (responses s @ [(res_id r, r)]))"
    by (auto simp: wf_def)
  from False assms show ?thesis
    using delete_oldest_tl [OF d]
    by (cases "responses s") (auto simp: wf_def recordResponse_def Let_def map_set_new)
qed

lemma wf_init: "wf (init t0)"
  by (simp add: wf_def init_def)

lemma wf_reset: "wf s \<Longrightarrow> wf (reset s)"
  by (simp add: wf_def reset_def)

lemma wf_recordRequest: "wf s \<Longrightarrow> wf (recordRequest now d s)"
proof -
  assume w: "wf s"
  have "length (requests (recordRequest now d s)) \<le> 100"
    using w by (auto simp: requests_recordRequest wf_def)
  moreover have "responses (recordRequest now d s) = responses s"
    "maxStoredRequests (recordRequest now d s) = maxStoredRequests s"
    by (simp_all add: recordRequest_def Let_def)
  ultimately show ?thesis using w by (simp add: wf_def)
qed

lemma wf_recordResponse: "wf s \<Longrightarrow> wf (recordResponse r s)"
proof -
  assume w: "wf s"
  have r: "requests (recordResponse r s) = requests s"
    "maxStoredRequests (recordResponse r s) = maxStoredRequests s"
    by (simp_all add: recordResponse_def Let_def)
  have l: "length (responses (recordResponse r s)) \<le> 100"
    using w by (auto simp: responses_recordResponse wf_def)
  have "distinct (map fst (responses (recordResponse r s)))"
  proof (cases "res_id r \<in> fst ` set (responses s)")
    case True
    then have "map fst (responses (recordResponse r s)) = map fst (responses s)"
      using w by (simp add: recordResponse_def Let_def length_map_set map_set_keys_old wf_def)
    with w show ?thesis by (simp add: wf_def)
  next
    case False
    with w show ?thesis
      by (cases "responses s") (auto simp: responses_recordResponse wf_def)
  qed
  with r l w show ?thesis by (simp add: wf_def)
qed

lemma wf_step: "wf s \<Longrightarrow> wf (step s c)"
  by (cases c) (simp_all add: wf_recordRequest wf_recordResponse wf_reset)

lemma wf_run: "wf s \<Longrightarrow> wf (run calls s)"
  unfolding run_def by (induction calls arbitrary: s) (simp_all add: wf_step)

text \<open>
  C6: after any sequence of calls on a fresh collector, the request array and the
  response map each hold at most 100 entries. The next \<open>recordRequest\<close> appends its
  event and, when the array is full, drops the first (oldest) one. The next
  \<open>recordResponse\<close> with a new id appends its entry and, when the map is full, drops the
  first-inserted one; with an id the map already holds it replaces that entry where it
  stands, so writing to an entry does not move it in the eviction order.
\<close>

theorem buffers_bounded_fifo:
  "length (requests (run calls (init t0))) \<le> 100
   \<and> length (responses (run calls (init t0))) \<le> 100
   \<and> requests (recordRequest now d (run calls (init t0))) =
       (if length (requests (run calls (init t0))) < 100
        then requests (run calls (init t0)) else tl (requests (run calls (init t0))))
       @ [d\<lparr>timestamp := now\<rparr>]
   \<and> responses (recordResponse r (run calls (init t0))) =
       (if res_id r \<in> fst ` set (responses (run calls (init t0)))
        then map (\<lambda>(k, v). if k = res_id r then (k, r) else (k, v))
               (responses (run calls (init t0)))
        else (if length (responses (run calls (init t0))) < 100
              then responses (run calls (init t0)) else tl (responses (run calls (init t0))))
             @ [(res_id r, r)])"
proof -
  have w: "wf (run calls (init t0))" by (rule wf_run [OF wf_init])
  then have "length (requests (run calls (init t0))) \<le> 100"
    "length (responses (run calls (init t0))) \<le> 100"
    by (simp_all add: wf_def)
  with requests_recordRequest [OF w] responses_recordResponse [OF w] show ?thesis
    by blast
qed


subsection \<open>The counters\<close>












subsection \<open>The hourly histogram\<close>












subsection \<open>Reset\<close>

text \<open>
  C9: \<open>reset()\<close> empties the stored requests, the response map and the per-model counts,
  zeroes the success, error and duration counters, and leaves the start time as it was,
  so the uptime of a later snapshot is the uptime the collector had without the reset.
\<close>

theorem reset_clears_keeps_start:
  "requests (reset s) = [] \<and> responses (reset s) = [] \<and> modelCounts (reset s) = []
   \<and> successCount (reset s) = 0 \<and> errorCount (reset s) = 0 \<and> totalDuration (reset s) = 0
   \<and> startTime (reset s) = startTime s
   \<and> uptime (getMetrics now (reset s)) = uptime (getMetrics now s)
   \<and> totalRequests (getMetrics now (reset s)) = 0
   \<and> total (getSummary (reset s)) = 0"
  by (simp add: reset_def getMetrics_def getSummary_def Let_def)

section \<open>Properties of the OAuth manager\<close>

lemma hasValidToken_fetches:
  "hasValidToken t (s\<lparr>upstreamFetches := n\<rparr>) = hasValidToken t s"
  by (simp add: hasValidToken_def split: option.splits)

lemma upt_shift: "[k ..< k + Suc n] = k # [Suc k ..< Suc k + n]"
  using upt_conv_Cons [of k "k + Suc n"] by simp

text \<open>
  C1, as the specification states it, fails: with the cached credential run out, two
  \<open>getToken()\<close> calls made before any answer arrives send two requests to the token
  endpoint, and the two callers wait for different requests.
\<close>

theorem storm_counterexample:
  "\<not> hasValidToken 2000 expired
   \<and> \<not> (upstreamFetches (snd (getTokens [2000, 2000] expired)) = upstreamFetches expired + 1)
   \<and> upstreamFetches (snd (getTokens [2000, 2000] expired)) = 2
   \<and> fst (getTokens [2000, 2000] expired) = [Pending 0, Pending 1]"
  by (simp add: expired_def getToken_def fetchToken_send_def hasValidToken_def)

text \<open>
  C1, amended: when the cached credential is not valid at any of the instants of N
  \<open>getToken()\<close> calls, and no fetch is answered in between, every call sends its own
  request to the token endpoint: N requests are sent, and the k-th caller waits for the
  answer to the k-th of them. The manager keeps no handle of a fetch in flight.
\<close>

theorem each_expired_call_fetches:
  assumes "\<forall>t \<in> set ts. \<not> hasValidToken t s"
  shows "getTokens ts s =
     (map Pending [upstreamFetches s ..< upstreamFetches s + length ts],
      s\<lparr>upstreamFetches := upstreamFetches s + length ts\<rparr>)"
  using assms
proof (induction ts arbitrary: s)
  case Nil
  then show ?case by simp
next
  case (Cons t ts)
  let ?s1 = "s\<lparr>upstreamFetches := Suc (upstreamFetches s)\<rparr>"
  from Cons.prems have g: "getToken t s = (Pending (upstreamFetches s), ?s1)"
    by (simp add: getToken_def fetchToken_send_def)
  from Cons.prems have "\<forall>t \<in> set ts. \<not> hasValidToken t ?s1"
    by (simp add: hasValidToken_fetches)
  moreover have "[upstreamFetches s ..< upstreamFetches s + length (t # ts)] =
      upstreamFetches s # [upstreamFetches ?s1 ..< upstreamFetches ?s1 + length ts]"
    using upt_shift [of "upstreamFetches s" "length ts"] by simp
  ultimately show ?case using Cons.IH [of ?s1] g by simp
qed

theorem each_expired_call_fetches_witness:
  "\<not> hasValidToken 2000 expired \<and> \<not> hasValidToken 2500 expired \<and> \<not> hasValidToken 3000 expired
   \<and> getTokens [2000, 2500, 3000] expired =
       ([Pending 0, Pending 1, Pending 2], expired\<lparr>upstreamFetches := 3\<rparr>)"
proof -
  have h: "\<forall>t \<in> set [2000, 2500, 3000]. \<not> hasValidToken t expired"
    by (simp add: expired_def hasValidToken_def)
  have "[upstreamFetches expired ..< upstreamFetches expired + length [2000, 2500, 3000 :: int]] = [0, 1, 2]"
    by (simp add: expired_def upt_rec)
  with each_expired_call_fetches [OF h] h show ?thesis
    by (simp add: expired_def)
qed

text \<open>
  C5, as the specification states it, fails: when the token endpoint reports a
  lifetime of 0, or none, the expiry stored is one hour after the answer, not the
  instant of the answer plus the reported lifetime.
\<close>

theorem expiry_counterexample:
  "tokenExpiry (snd (fetchToken_settle 5000 (Responded (Some \<lparr>access_token = Some ''tok'', expires_in = Some 0\<rparr>)) new_manager))
     \<noteq> Some (5000 + 0 * 1000)
   \<and> tokenExpiry (snd (fetchToken_settle 5000 (Responded (Some \<lparr>access_token = Some ''tok'', expires_in = None\<rparr>)) new_manager))
     = Some (5000 + 3600 * 1000)"
  by (simp add: fetchToken_settle_def new_manager_def)

text \<open>
  C5, amended: after a successful fetch the stored expiry is the instant the answer is
  processed plus 1000 ms for each second of the lifetime the token endpoint reported,
  when it reported one other than 0, and plus 3600 s otherwise; a failed fetch leaves the
  stored expiry as it was.
\<close>

theorem expiry_from_lifetime_or_default:
  "fetchToken_settle now (Responded (Some d)) s =
     (Inr (access_token d),
      s\<lparr>token := access_token d,
        tokenExpiry :=
          Some (now + 1000 * (case expires_in d of
                                Some n \<Rightarrow> if n = 0 then 3600 else n
                              | None \<Rightarrow> 3600))\<rparr>)
   \<and> tokenExpiry (autoRefresh now (Responded (Some d)) s) =
       Some (now + 1000 * (case expires_in d of
                             Some n \<Rightarrow> if n = 0 then 3600 else n
                           | None \<Rightarrow> 3600))
   \<and> tokenExpiry (snd (fetchToken_settle now (Rejected err) s)) = tokenExpiry s
   \<and> tokenExpiry (snd (fetchToken_settle now (Responded None) s)) = tokenExpiry s"
  by (simp add: fetchToken_settle_def autoRefresh_def fetchToken_send_def Let_def
      split: option.splits)

text \<open>
  C7: when the fetch of a scheduled refresh fails, the refresh ends without an error
  and leaves the cached token and its expiry as they were: \<open>hasValidToken()\<close> answers as
  before at every instant, so it stays true at every instant before the expiry of a
  non-empty token, and while it is true \<open>getToken()\<close> gives the cached token without a
  fetch.
\<close>

theorem refresh_failure_keeps_credential:
  assumes "fst (fetchToken_settle now out (snd (fetchToken_send s))) = Inl err"
  shows "token (autoRefresh now out s) = token s
     \<and> tokenExpiry (autoRefresh now out s) = tokenExpiry s
     \<and> hasValidToken t (autoRefresh now out s) = hasValidToken t s
     \<and> (hasValidToken t s \<longrightarrow>
          getToken t (autoRefresh now out s) = (Resolved (token s), autoRefresh now out s))
     \<and> (token s = Some tok \<and> tok \<noteq> [] \<and> tokenExpiry s = Some e \<and> t < e \<longrightarrow>
          hasValidToken t (autoRefresh now out s))"
proof -
  from assms have a: "autoRefresh now out s = s\<lparr>upstreamFetches := Suc (upstreamFetches s)\<rparr>"
    by (auto simp: autoRefresh_def fetchToken_settle_def fetchToken_send_def Let_def
        split: post_outcome.splits option.splits)
  show ?thesis unfolding a
    by (simp add: getToken_def hasValidToken_fetches) (simp add: hasValidToken_def)
qed

theorem refresh_failure_keeps_credential_witness:
  "fst (fetchToken_settle 2000 token_down (snd (fetchToken_send cached))) =
     Inl \<lparr>message = ''connect ECONNREFUSED'', err_response = None\<rparr>
   \<and> token (autoRefresh 2000 token_down cached) = Some ''old''
   \<and> tokenExpiry (autoRefresh 2000 token_down cached) = Some 5000
   \<and> hasValidToken 3000 (autoRefresh 2000 token_down cached)
   \<and> getToken 3000 (autoRefresh 2000 token_down cached) =
       (Resolved (Some ''old''), autoRefresh 2000 token_down cached)"
proof -
  have f: "fst (fetchToken_settle 2000 token_down (snd (fetchToken_send cached))) =
     Inl \<lparr>message = ''connect ECONNREFUSED'', err_response = None\<rparr>"
    by (simp add: fetchToken_settle_def token_down_def)
  have v: "hasValidToken 3000 cached"
    by (simp add: hasValidToken_def cached_def)
  from refresh_failure_keeps_credential [OF f, where t = 3000 and tok = "''old''" and e = 5000] f v
  show ?thesis by (simp add: cached_def)
qed

section \<open>Properties of the proxy handler\<close>

text \<open>The chat handler answers a missing or malformed \<open>Authorization\<close> header with 401
  and touches nothing.\<close>

lemma chat_rejects_bad_auth:
  "rejected_auth (authorization req) \<Longrightarrow>
   handleChatCompletion e req w =
     (Json 401 (ErrorEnvelope ''Missing or invalid authorization header. Use any non-empty API key.''
                  ''invalid_request_error'' None), w)"
  by (simp add: handleChatCompletion_def)

text \<open>
  C2 asks the same of both handlers. \<open>handleCompletion\<close> has no such check: a request
  without an \<open>Authorization\<close> header is served, the upstream API is called and both
  events are recorded.
\<close>

theorem completion_serves_without_authorization:
  "(case handleCompletion ex_env \<lparr>authorization = None, req_body = ex_body\<rparr> ex_world of
      (rep, w) \<Rightarrow>
        rep = Json 200 (Data (Some \<lparr>payload = ''{}'', proxy = None\<rparr>))
        \<and> map url (upstreamCalls w) = [''https://api/completions'']
        \<and> map req_id (requests (collector w)) = [''req_2000_abc'']
        \<and> map fst (responses (collector w)) = [''req_2000_abc''])"
  by (simp add: handleCompletion_def ex_env_def ex_world_def ex_body_def ex_defaults_def expired_def
      await_getToken_def getToken_def hasValidToken_def fetchToken_send_def fetchToken_settle_def
      requestBody_def or_default_def defined_or_def recordRequest_def recordResponse_def init_def
      post_upstream_def record_success_def map_set_def Let_def)

text \<open>The merged body, field by field: the four sampling parameters are taken from the
  request whenever it has them; \<open>max_tokens\<close> only when its value is truthy.\<close>

lemma requestBody_fields:
  "max_tokens (requestBody env b) =
     Some (case max_tokens b of Some v \<Rightarrow> if truthy v then v else env_max_tokens env
           | None \<Rightarrow> env_max_tokens env)
   \<and> temperature (requestBody env b) =
     Some (case temperature b of Some v \<Rightarrow> v | None \<Rightarrow> env_temperature env)
   \<and> top_p (requestBody env b) = Some (case top_p b of Some v \<Rightarrow> v | None \<Rightarrow> env_top_p env)
   \<and> frequency_penalty (requestBody env b) =
     Some (case frequency_penalty b of Some v \<Rightarrow> v | None \<Rightarrow> env_frequency_penalty env)
   \<and> presence_penalty (requestBody env b) =
     Some (case presence_penalty b of Some v \<Rightarrow> v | None \<Rightarrow> env_presence_penalty env)
   \<and> model (requestBody env b) = model b \<and> stream (requestBody env b) = stream b
   \<and> others (requestBody env b) = others b"
  by (simp add: requestBody_def or_default_def defined_or_def)

text \<open>
  C3 asks that every value the caller gives, 0 included, is forwarded: a request with
  \<open>max_tokens: 0\<close> and \<open>temperature: 0\<close> reaches the upstream API with the default
  \<open>max_tokens\<close> 4096 and its own \<open>temperature\<close> 0.
\<close>

theorem max_tokens_zero_not_forwarded:
  "(case handleChatCompletion ex_env \<lparr>authorization = Some ''Bearer k'', req_body = ex_body\<rparr> ex_world of
      (rep, w) \<Rightarrow>
        max_tokens ex_body = Some (JNum 0)
        \<and> map (max_tokens \<circ> sent_body) (upstreamCalls w) = [Some (JNum 4096)]
        \<and> map (temperature \<circ> sent_body) (upstreamCalls w) = [Some (JNum 0)])"
  by (simp add: handleChatCompletion_def ex_env_def ex_world_def ex_body_def ex_defaults_def expired_def
      rejected_auth_def handleRegularResponse_def
      await_getToken_def getToken_def hasValidToken_def fetchToken_send_def fetchToken_settle_def
      requestBody_def or_default_def defined_or_def recordRequest_def recordResponse_def init_def
      post_upstream_def record_success_def map_set_def Let_def)

text \<open>When the token is obtained, the chat handler records the request event and then
  one response event with the same id.\<close>

lemma chat_events_when_token_obtained:
  assumes "\<not> rejected_auth (authorization req)"
    and "await_getToken (t_auth e) (token_reply e) (t_fetched e) (oauth w) = (Inr tok, m)"
  shows "\<exists>st err.
     collector (snd (handleChatCompletion e req w)) =
       recordResponse \<lparr>res_id = requestId e, duration = t_end e - t_start e, status = st, error = err\<rparr>
         (recordRequest (t_request e)
            \<lparr>req_id = requestId e, req_model = model (req_body req),
             req_endpoint = ''/v1/chat/completions'', timestamp = t_request e\<rparr>
            (collector w))"
  using assms
  by (auto simp: handleChatCompletion_def Let_def handleRegularResponse_def handleStreamingResponse_def
      caught_def record_success_def post_upstream_def requestBody_fields
      split: prod.splits sum.splits)

text \<open>
  C4 asks that no response event is recorded without its request event: when the token
  fetch fails, the chat handler records an error response for a request it has not
  recorded.
\<close>

theorem response_without_request_on_token_failure:
  "(case handleChatCompletion (ex_env\<lparr>token_reply := token_down\<rparr>)
           \<lparr>authorization = Some ''Bearer k'', req_body = ex_body\<rparr> ex_world of
      (rep, w) \<Rightarrow>
        rep = Json 500 (ErrorEnvelope ''connect ECONNREFUSED'' ''proxy_error'' None)
        \<and> requests (collector w) = []
        \<and> map fst (responses (collector w)) = [''req_2000_abc'']
        \<and> errorCount (collector w) = 1
        \<and> upstreamCalls w = [])"
  by (simp add: handleChatCompletion_def ex_env_def ex_world_def ex_body_def ex_defaults_def expired_def
      rejected_auth_def token_down_def caught_def formatErrorResponse_def
      await_getToken_def getToken_def hasValidToken_def fetchToken_send_def fetchToken_settle_def
      recordResponse_def init_def map_set_def Let_def)

end
